theory Spec2Isabelle
  imports Complex_Main "HOL-Library.Sublist" "HOL-Library.Multiset"
begin

section \<open>Values\<close>

text \<open>
  The dashboards \<^verbatim>\<open>app.py\<close> and \<^verbatim>\<open>app_advanced.py\<close> work on pandas data
  frames. A cell of a frame is a Python string, a float or an integer. Floats are
  modelled as exact rationals extended by the two infinities and NaN: rounding of
  double precision arithmetic is not modelled. NaN is what pandas uses for a
  missing value.
\<close>

datatype fl = Fin rat | PInf | NInf | NaN

text \<open>Comparisons of floats: every comparison with NaN is false.\<close>

fun fl_lt :: "fl \<Rightarrow> fl \<Rightarrow> bool" where
  "fl_lt NaN _ = False"
| "fl_lt _ NaN = False"
| "fl_lt (Fin a) (Fin b) = (a < b)"
| "fl_lt (Fin _) PInf = True"
| "fl_lt (Fin _) NInf = False"
| "fl_lt PInf _ = False"
| "fl_lt NInf NInf = False"
| "fl_lt NInf _ = True"

fun fl_le :: "fl \<Rightarrow> fl \<Rightarrow> bool" where
  "fl_le NaN _ = False"
| "fl_le _ NaN = False"
| "fl_le (Fin a) (Fin b) = (a \<le> b)"
| "fl_le (Fin _) PInf = True"
| "fl_le (Fin _) NInf = False"
| "fl_le PInf PInf = True"
| "fl_le PInf _ = False"
| "fl_le NInf _ = True"

definition fl_gt :: "fl \<Rightarrow> fl \<Rightarrow> bool" where
  "fl_gt a b = fl_lt b a"

definition fl_ge :: "fl \<Rightarrow> fl \<Rightarrow> bool" where
  "fl_ge a b = fl_le b a"

text \<open>Addition and halving, as the median of an even number of values needs them.\<close>

fun fl_add :: "fl \<Rightarrow> fl \<Rightarrow> fl" where
  "fl_add NaN _ = NaN"
| "fl_add _ NaN = NaN"
| "fl_add (Fin a) (Fin b) = Fin (a + b)"
| "fl_add (Fin _) PInf = PInf"
| "fl_add (Fin _) NInf = NInf"
| "fl_add PInf NInf = NaN"
| "fl_add PInf _ = PInf"
| "fl_add NInf PInf = NaN"
| "fl_add NInf _ = NInf"

fun fl_half :: "fl \<Rightarrow> fl" where
  "fl_half (Fin a) = Fin (a / 2)"
| "fl_half x = x"

datatype cell = CStr string | CFloat fl | CInt int

section \<open>Strings\<close>

text \<open>
  A \<^typ>\<open>char\<close> stands for one code point below 256. \<open>str_replace p r s\<close> is
  Python's \<^verbatim>\<open>s.replace(p, r)\<close> for a pattern \<open>p\<close> of one character:
  every occurrence is replaced.
\<close>

fun str_replace :: "char \<Rightarrow> string \<Rightarrow> string \<Rightarrow> string" where
  "str_replace p r [] = []"
| "str_replace p r (c # cs) =
     (if c = p then r @ str_replace p r cs else c # str_replace p r cs)"

text \<open>The code points below 256 for which Python's \<^verbatim>\<open>str.isspace\<close> holds.\<close>

definition is_space :: "char \<Rightarrow> bool" where
  "is_space c = (let n = (of_char c :: nat) in
     (9 \<le> n \<and> n \<le> 13) \<or> (28 \<le> n \<and> n \<le> 32) \<or> n = 133 \<or> n = 160)"

definition str_strip :: "string \<Rightarrow> string" where
  "str_strip s = rev (dropWhile is_space (rev (dropWhile is_space s)))"

section \<open>Parsing a number: \<^verbatim>\<open>pd.to_numeric(..., errors='coerce')\<close>\<close>

text \<open>
  On a string pandas accepts a decimal literal: an optional sign, digits with an
  optional fraction (at least one digit in all), an optional exponent; and the
  spellings \<^verbatim>\<open>inf\<close>, \<^verbatim>\<open>infinity\<close> and \<^verbatim>\<open>nan\<close> in any case. A string that is
  not accepted is a parse failure (\<open>None\<close>), which \<^verbatim>\<open>errors='coerce'\<close> turns into
  NaN.
\<close>

definition digit_of :: "char \<Rightarrow> nat option" where
  "digit_of c = (let n = (of_char c :: nat) in
     if 48 \<le> n \<and> n \<le> 57 then Some (n - 48) else None)"

fun take_digits :: "string \<Rightarrow> nat list \<times> string" where
  "take_digits [] = ([], [])"
| "take_digits (c # cs) =
     (case digit_of c of
        None \<Rightarrow> ([], c # cs)
      | Some d \<Rightarrow> (case take_digits cs of (ds, r) \<Rightarrow> (d # ds, r)))"

definition digits_val :: "nat list \<Rightarrow> nat" where
  "digits_val ds = foldl (\<lambda>a d. 10 * a + d) 0 ds"

fun parse_sign :: "string \<Rightarrow> bool \<times> string" where
  "parse_sign [] = (False, [])"
| "parse_sign (c # cs) =
     (if c = CHR ''-'' then (True, cs)
      else if c = CHR ''+'' then (False, cs)
      else (False, c # cs))"

fun parse_exponent :: "string \<Rightarrow> int option" where
  "parse_exponent [] = Some 0"
| "parse_exponent (c # cs) =
     (if c = CHR ''e'' \<or> c = CHR ''E'' then
        (case parse_sign cs of (neg, r1) \<Rightarrow>
           (case take_digits r1 of (ds, r2) \<Rightarrow>
              if ds \<noteq> [] \<and> r2 = []
              then Some (if neg then - int (digits_val ds) else int (digits_val ds))
              else None))
      else None)"

definition pow10 :: "int \<Rightarrow> rat" where
  "pow10 e = (if 0 \<le> e then 10 ^ nat e else 1 / 10 ^ nat (- e))"

definition parse_decimal :: "string \<Rightarrow> rat option" where
  "parse_decimal s =
     (case parse_sign s of (neg, s1) \<Rightarrow>
      case take_digits s1 of (ip, s2) \<Rightarrow>
      case (case s2 of
              [] \<Rightarrow> ([], [])
            | c # r \<Rightarrow> if c = CHR ''.'' then take_digits r else ([], s2)) of (fp, s3) \<Rightarrow>
      if ip = [] \<and> fp = [] then None
      else (case parse_exponent s3 of
              None \<Rightarrow> None
            | Some e \<Rightarrow>
                let mant = of_nat (digits_val (ip @ fp)) / 10 ^ length fp
                in Some ((if neg then - mant else mant) * pow10 e)))"

definition to_lower :: "char \<Rightarrow> char" where
  "to_lower c =
     (case map_of (zip ''ABCDEFGHIJKLMNOPQRSTUVWXYZ'' ''abcdefghijklmnopqrstuvwxyz'') c of
        Some l \<Rightarrow> l
      | None \<Rightarrow> c)"

definition parse_special :: "string \<Rightarrow> fl option" where
  "parse_special s =
     (case parse_sign s of (neg, r) \<Rightarrow>
        let w = map to_lower r in
        if w = ''inf'' \<or> w = ''infinity'' then Some (if neg then NInf else PInf)
        else if w = ''nan'' then Some NaN
        else None)"

definition parse_float :: "string \<Rightarrow> fl option" where
  "parse_float s =
     (case parse_decimal s of
        Some q \<Rightarrow> Some (Fin q)
      | None \<Rightarrow> parse_special s)"

definition to_numeric :: "string \<Rightarrow> fl" where
  "to_numeric s = (case parse_float s of Some x \<Rightarrow> x | None \<Rightarrow> NaN)"

section \<open>\<^verbatim>\<open>clean_numeric_column\<close>\<close>

datatype dtype = Object | Float64 | Int64

record series =
  dtype :: dtype
  svalues :: "cell list"

text \<open>
  A column that holds a string has dtype \<^verbatim>\<open>object\<close>, as \<^verbatim>\<open>read_csv\<close> makes
  it; a column of floats or of integers has a numeric dtype.
  In a column of dtype \<^verbatim>\<open>object\<close> every cell goes through \<^verbatim>\<open>astype(str)\<close>, the
  three replacements, \<^verbatim>\<open>strip\<close> and \<^verbatim>\<open>to_numeric\<close>. For a cell that is a
  string \<^verbatim>\<open>astype(str)\<close> changes nothing. For a number it gives Python's
  \<^verbatim>\<open>repr\<close>, which holds none of the three symbols and no white space and parses
  back to the number it came from.
\<close>

fun clean_object_cell :: "cell \<Rightarrow> fl" where
  "clean_object_cell (CStr s) =
     to_numeric (str_strip (str_replace CHR '','' []
       (str_replace CHR ''$'' [] (str_replace CHR ''%'' [] s))))"
| "clean_object_cell (CFloat x) = x"
| "clean_object_cell (CInt n) = Fin (of_int n)"

text \<open>\<^verbatim>\<open>pd.to_numeric(series, errors='coerce')\<close>, cell by cell.\<close>

fun to_numeric_cell :: "cell \<Rightarrow> fl" where
  "to_numeric_cell (CStr s) = to_numeric s"
| "to_numeric_cell (CFloat x) = x"
| "to_numeric_cell (CInt n) = Fin (of_int n)"

definition clean_numeric_column :: "series \<Rightarrow> fl list" where
  "clean_numeric_column s =
     (if dtype s = Object then map clean_object_cell (svalues s)
      else map to_numeric_cell (svalues s))"

section \<open>Data frames\<close>

text \<open>
  A row keeps its index label and its cells by column name; a frame has the dtype
  of each of its columns and its rows in order. \<open>get_col df c\<close> is \<^verbatim>\<open>df[c]\<close>
  behind the test \<^verbatim>\<open>c in df.columns\<close> that guards every access of the
  source: \<open>None\<close> when the column is absent.
\<close>

record row =
  rid :: nat
  cells :: "string \<Rightarrow> cell"

record frame =
  columns :: "string \<rightharpoonup> dtype"
  rows :: "row list"

definition get_col :: "frame \<Rightarrow> string \<Rightarrow> series option" where
  "get_col df c =
     (case columns df c of
        None \<Rightarrow> None
      | Some d \<Rightarrow> Some \<lparr>dtype = d, svalues = map (\<lambda>r. cells r c) (rows df)\<rparr>)"

text \<open>\<^verbatim>\<open>df[mask]\<close> for a boolean mask aligned with the rows of \<open>df\<close>.\<close>

definition select :: "frame \<Rightarrow> bool list \<Rightarrow> frame" where
  "select df msk = df\<lparr>rows := map fst (filter snd (zip (rows df) msk))\<rparr>"

text \<open>\<^verbatim>\<open>a &= b\<close> on two masks.\<close>

definition mask_and :: "bool list \<Rightarrow> bool list \<Rightarrow> bool list" where
  "mask_and a b = map2 (\<and>) a b"

text \<open>
  \<^verbatim>\<open>Series.isin\<close>: a cell is in the selection when it equals one of its
  elements; an integer equals the float of the same value, and NaN matches NaN.
\<close>

fun cell_same :: "cell \<Rightarrow> cell \<Rightarrow> bool" where
  "cell_same (CStr a) (CStr b) = (a = b)"
| "cell_same (CFloat a) (CFloat b) = (a = b)"
| "cell_same (CInt a) (CInt b) = (a = b)"
| "cell_same (CInt a) (CFloat b) = (b = Fin (of_int a))"
| "cell_same (CFloat a) (CInt b) = (a = Fin (of_int b))"
| "cell_same _ _ = False"

definition isin :: "series \<Rightarrow> cell list \<Rightarrow> bool list" where
  "isin s sel = map (\<lambda>c. list_ex (cell_same c) sel) (svalues s)"

text \<open>\<^verbatim>\<open>df[c] = vals\<close> for values aligned with the rows of \<open>df\<close>.\<close>

definition set_column :: "frame \<Rightarrow> string \<Rightarrow> dtype \<Rightarrow> cell list \<Rightarrow> frame" where
  "set_column df c d vals =
     \<lparr>columns = (columns df)(c \<mapsto> d),
      rows = map2 (\<lambda>r v. r\<lparr>cells := (cells r)(c := v)\<rparr>) (rows df) vals\<rparr>"

section \<open>Medians\<close>

definition dropna :: "fl list \<Rightarrow> fl list" where
  "dropna xs = filter (\<lambda>x. x \<noteq> NaN) xs"

fun fl_insert :: "fl \<Rightarrow> fl list \<Rightarrow> fl list" where
  "fl_insert x [] = [x]"
| "fl_insert x (y # ys) = (if fl_le x y then x # y # ys else y # fl_insert x ys)"

fun fl_sort :: "fl list \<Rightarrow> fl list" where
  "fl_sort [] = []"
| "fl_sort (x # xs) = fl_insert x (fl_sort xs)"

text \<open>
  \<^verbatim>\<open>Series.median()\<close> of a non-empty series without NaN: the middle value
  of the ascending sort, the mean of the two middle values for an even count.
\<close>

definition median :: "fl list \<Rightarrow> fl" where
  "median xs =
     (let ys = fl_sort xs; n = length ys in
      if n mod 2 = 1 then ys ! (n div 2)
      else fl_half (fl_add (ys ! (n div 2 - 1)) (ys ! (n div 2))))"

section \<open>\<^verbatim>\<open>calculate_score\<close>\<close>

text \<open>
  The column names of the source. Three of them are Chinese; they are written as
  the bytes of their UTF-8 encoding, since only their identity matters.
\<close>

definition col_retention :: string where
  "col_retention = [CHR 0xE6, CHR 0xAC, CHR 0xA1, CHR 0xE7, CHR 0x95, CHR 0x99]"

definition col_date :: string where
  "col_date = [CHR 0xE6, CHR 0xB5, CHR 0x8B, CHR 0xE8, CHR 0xAF, CHR 0x95,
               CHR 0xE6, CHR 0x97, CHR 0xA5, CHR 0xE6, CHR 0x9C, CHR 0x9F]"

definition col_country :: string where
  "col_country = [CHR 0xE5, CHR 0x9B, CHR 0xBD, CHR 0xE5, CHR 0xAE, CHR 0xB6]"

definition col_score :: string where
  "col_score = [CHR 0xE5, CHR 0xBE, CHR 0x97, CHR 0xE5, CHR 0x88, CHR 0x86]"

definition col_install :: string where
  "col_install = ''Install(AF)''"

definition col_cpi :: string where
  "col_cpi = ''CPI''"

datatype direction = Higher | Lower

text \<open>The dictionary \<^verbatim>\<open>metrics\<close>: key, column and direction, in its order.\<close>

definition metrics :: "(string \<times> string \<times> direction) list" where
  "metrics =
     [(''ctr'', ''CTR'', Higher),
      (''cvr'', ''CVR'', Higher),
      (''retention'', col_retention, Higher),
      (''cpm'', ''CPM'', Lower)]"

text \<open>
  One entry of \<^verbatim>\<open>medians\<close>: the median of the values of the column that are
  not NaN, and \<open>None\<close> (Python's \<^verbatim>\<open>None\<close>) when the column is absent or has no
  such value.
\<close>

definition column_median :: "frame \<Rightarrow> string \<Rightarrow> fl option" where
  "column_median df_filtered col_name =
     (case get_col df_filtered col_name of
        None \<Rightarrow> None
      | Some s \<Rightarrow>
          let cleaned = clean_numeric_column s;
              valid_data = dropna cleaned
          in if length valid_data > 0 then Some (median valid_data) else None)"

fun medians_loop ::
  "frame \<Rightarrow> (string \<times> string \<times> direction) list \<Rightarrow> (string \<rightharpoonup> fl option)
     \<Rightarrow> (string \<rightharpoonup> fl option)" where
  "medians_loop df_filtered [] medians = medians"
| "medians_loop df_filtered ((key, col_name, d) # ms) medians =
     medians_loop df_filtered ms (medians(key \<mapsto> column_median df_filtered col_name))"

text \<open>
  The second loop over \<^verbatim>\<open>metrics\<close>: a rule is applied when its column is in
  the frame and its median is not \<^verbatim>\<open>None\<close>, and adds one point to every row
  whose value compares strictly with the median. The first loop has given every
  key of \<^verbatim>\<open>metrics\<close> an entry in \<^verbatim>\<open>medians\<close>, so the lookup finds one.
\<close>

fun score_loop ::
  "frame \<Rightarrow> (string \<rightharpoonup> fl option) \<Rightarrow> (string \<times> string \<times> direction) list
     \<Rightarrow> int list \<Rightarrow> int list" where
  "score_loop df_filtered medians [] scores = scores"
| "score_loop df_filtered medians ((key, col_name, d) # ms) scores =
     score_loop df_filtered medians ms
       (case get_col df_filtered col_name of
          None \<Rightarrow> scores
        | Some s \<Rightarrow>
            (case medians key of
               Some (Some m) \<Rightarrow>
                 let cleaned = clean_numeric_column s in
                 if d = Higher
                 then map2 (+) scores (map (\<lambda>x. if fl_gt x m then 1 else 0) cleaned)
                 else map2 (+) scores (map (\<lambda>x. if fl_lt x m then 1 else 0) cleaned)
             | _ \<Rightarrow> scores))"

text \<open>
  The function returns the scores and the medians. Its second parameter
  \<^verbatim>\<open>col_map\<close> is not read by its body and is left out.
\<close>

definition calculate_score :: "frame \<Rightarrow> int list \<times> (string \<rightharpoonup> fl option)" where
  "calculate_score df_filtered =
     (let scores = replicate (length (rows df_filtered)) 0;
          medians = medians_loop df_filtered metrics Map.empty;
          medians = medians(''cpi'' \<mapsto> column_median df_filtered ''CPI'')
      in (score_loop df_filtered medians metrics scores, medians))"

section \<open>The pipeline of \<^verbatim>\<open>app_advanced.py\<close>\<close>

text \<open>
  What the user has set in the side bar: the two selections, the minimum install
  count, the maximum CPI (the source calls it \<^verbatim>\<open>min_cpi\<close>) and the value of the
  score slider. How the widgets are drawn, with their bounds and defaults, is not
  modelled.
\<close>

record ui =
  ui_sel_date :: "cell list"
  ui_sel_country :: "cell list"
  ui_min_install :: int
  ui_min_cpi :: fl
  ui_min_score :: int

text \<open>A selection is \<^verbatim>\<open>None\<close> when its column is not in the frame.\<close>

definition sel_date :: "frame \<Rightarrow> ui \<Rightarrow> cell list option" where
  "sel_date df u = (if col_date \<in> dom (columns df) then Some (ui_sel_date u) else None)"

definition sel_country :: "frame \<Rightarrow> ui \<Rightarrow> cell list option" where
  "sel_country df u =
     (if col_country \<in> dom (columns df) then Some (ui_sel_country u) else None)"

definition query_date_country :: "frame \<Rightarrow> ui \<Rightarrow> bool list" where
  "query_date_country df u =
     (let q = replicate (length (rows df)) True;
          q = (case sel_date df u of
                 None \<Rightarrow> q
               | Some sel \<Rightarrow>
                   (case get_col df col_date of
                      None \<Rightarrow> q
                    | Some s \<Rightarrow> mask_and q (isin s sel)));
          q = (case sel_country df u of
                 None \<Rightarrow> q
               | Some sel \<Rightarrow>
                   (case get_col df col_country of
                      None \<Rightarrow> q
                    | Some s \<Rightarrow> mask_and q (isin s sel)))
      in q)"

text \<open>The Stage-1 snapshot before the score column is added.\<close>

definition date_country_rows :: "frame \<Rightarrow> ui \<Rightarrow> frame" where
  "date_country_rows df u = select df (query_date_country df u)"

text \<open>
  \<^verbatim>\<open>df_date_country_filtered\<close> as the rest of the script sees it: with the
  column of scores when it has a row.
\<close>

definition df_date_country_filtered :: "frame \<Rightarrow> ui \<Rightarrow> frame" where
  "df_date_country_filtered df u =
     (let d = date_country_rows df u in
      if length (rows d) > 0
      then set_column d col_score Int64 (map CInt (fst (calculate_score d)))
      else d)"

definition medians_of :: "frame \<Rightarrow> ui \<Rightarrow> (string \<rightharpoonup> fl option)" where
  "medians_of df u =
     (let d = date_country_rows df u in
      if length (rows d) > 0 then snd (calculate_score d) else Map.empty)"

definition min_install :: "frame \<Rightarrow> ui \<Rightarrow> int option" where
  "min_install d u =
     (if col_install \<in> dom (columns d) then Some (ui_min_install u) else None)"

definition min_cpi :: "frame \<Rightarrow> ui \<Rightarrow> fl option" where
  "min_cpi d u = (if col_cpi \<in> dom (columns d) then Some (ui_min_cpi u) else None)"

text \<open>The Stage-2 mask over the Stage-1 snapshot \<open>d\<close>.\<close>

definition query_base :: "frame \<Rightarrow> ui \<Rightarrow> bool list" where
  "query_base d u =
     (let q = replicate (length (rows d)) True;
          q = (case min_install d u of
                 None \<Rightarrow> q
               | Some mi \<Rightarrow>
                   (case get_col d col_install of
                      None \<Rightarrow> q
                    | Some s \<Rightarrow>
                        let install_series = clean_numeric_column s
                        in mask_and q (map (\<lambda>x. fl_ge x (Fin (of_int mi))) install_series)));
          q = (case min_cpi d u of
                 None \<Rightarrow> q
               | Some mc \<Rightarrow>
                   (case get_col d col_cpi of
                      None \<Rightarrow> q
                    | Some s \<Rightarrow>
                        let cpi_series = clean_numeric_column s
                        in mask_and q (map (\<lambda>x. fl_le x mc) cpi_series)))
      in q)"

definition df_base_filtered :: "frame \<Rightarrow> ui \<Rightarrow> frame" where
  "df_base_filtered df u =
     (let d = df_date_country_filtered df u in select d (query_base d u))"

text \<open>
  The score column holds the integers of \<^verbatim>\<open>scores\<close>; \<open>score_of\<close> reads one
  back.
\<close>

fun score_of :: "cell \<Rightarrow> int" where
  "score_of (CInt n) = n"
| "score_of (CFloat x) = (case x of Fin q \<Rightarrow> \<lfloor>q\<rfloor> | _ \<Rightarrow> 0)"
| "score_of (CStr s) = 0"

fun list_max :: "int list \<Rightarrow> int" where
  "list_max [] = 0"
| "list_max [x] = x"
| "list_max (x # y # ys) = max x (list_max (y # ys))"

definition empty_frame :: frame where
  "empty_frame = \<lparr>columns = Map.empty, rows = []\<rparr>"

definition df_final :: "frame \<Rightarrow> ui \<Rightarrow> frame" where
  "df_final df u =
     (let d = df_date_country_filtered df u;
          b = df_base_filtered df u
      in if length (rows b) > 0 then
           (case get_col b col_score of
              Some s \<Rightarrow>
                let max_score = list_max (map score_of (svalues s));
                    min_score = (if max_score = 0 then 0 else ui_min_score u)
                in select b (map (\<lambda>c. score_of c \<ge> min_score) (svalues s))
            | None \<Rightarrow> empty_frame)
         else if length (rows d) = 0 then empty_frame
         else empty_frame)"

section \<open>The pipeline of \<^verbatim>\<open>app.py\<close>\<close>

text \<open>One mask over the raw frame: dates, countries and the minimum install count.\<close>

definition query :: "frame \<Rightarrow> ui \<Rightarrow> bool list" where
  "query df u =
     (let q = query_date_country df u;
          q = (case min_install df u of
                 None \<Rightarrow> q
               | Some mi \<Rightarrow>
                   (case get_col df col_install of
                      None \<Rightarrow> q
                    | Some s \<Rightarrow>
                        let install_series = clean_numeric_column s
                        in mask_and q (map (\<lambda>x. fl_ge x (Fin (of_int mi))) install_series)))
      in q)"

definition df_sel :: "frame \<Rightarrow> ui \<Rightarrow> frame" where
  "df_sel df u = select df (query df u)"

section \<open>Notions used to state the properties\<close>

text \<open>The normalized value of one cell of a column of dtype \<open>d\<close>.\<close>

definition clean_cell :: "dtype \<Rightarrow> cell \<Rightarrow> fl" where
  "clean_cell d c = (if d = Object then clean_object_cell c else to_numeric_cell c)"

text \<open>One set-membership filter on its own: \<^verbatim>\<open>df[df[c].isin(sel)]\<close>.\<close>

definition filter_isin :: "frame \<Rightarrow> string \<Rightarrow> cell list \<Rightarrow> frame" where
  "filter_isin df c sel =
     (case get_col df c of None \<Rightarrow> df | Some s \<Rightarrow> select df (isin s sel))"

text \<open>The minimum install filter on its own.\<close>

definition filter_min_install :: "frame \<Rightarrow> int \<Rightarrow> frame" where
  "filter_min_install df mi =
     (case get_col df col_install of
        None \<Rightarrow> df
      | Some s \<Rightarrow> select df (map (\<lambda>x. fl_ge x (Fin (of_int mi))) (clean_numeric_column s)))"

text \<open>
  A scoring rule is available in a frame when its column is in the schema and at
  least one of its normalized values is not NaN.
\<close>

definition rule_available :: "frame \<Rightarrow> string \<times> string \<times> direction \<Rightarrow> bool" where
  "rule_available df rule =
     (case get_col df (fst (snd rule)) of
        None \<Rightarrow> False
      | Some s \<Rightarrow> list_ex (\<lambda>x. x \<noteq> NaN) (clean_numeric_column s))"

definition available_rules :: "frame \<Rightarrow> nat" where
  "available_rules df = length (filter (rule_available df) metrics)"

text \<open>What each mask asks of one row \<open>r\<close> of the frame it is computed on.\<close>

definition passes_isin :: "frame \<Rightarrow> string \<Rightarrow> cell list \<Rightarrow> row \<Rightarrow> bool" where
  "passes_isin df c sel r =
     (case columns df c of
        None \<Rightarrow> True
      | Some d \<Rightarrow> list_ex (cell_same (cells r c)) sel)"

definition passes_min_install :: "frame \<Rightarrow> int \<Rightarrow> row \<Rightarrow> bool" where
  "passes_min_install df mi r =
     (case columns df col_install of
        None \<Rightarrow> True
      | Some d \<Rightarrow> fl_ge (clean_cell d (cells r col_install)) (Fin (of_int mi)))"

definition passes_max_cpi :: "frame \<Rightarrow> fl \<Rightarrow> row \<Rightarrow> bool" where
  "passes_max_cpi df mc r =
     (case columns df col_cpi of
        None \<Rightarrow> True
      | Some d \<Rightarrow> fl_le (clean_cell d (cells r col_cpi)) mc)"

text \<open>The middle of a list of floats that is already in ascending order.\<close>

definition middle :: "fl list \<Rightarrow> fl" where
  "middle ys =
     (if length ys mod 2 = 1 then ys ! (length ys div 2)
      else fl_half (fl_add (ys ! (length ys div 2 - 1)) (ys ! (length ys div 2))))"

text \<open>
  An example: the three creatives of the end-to-end scenario and a fourth one from
  another country, and a setting of the side bar that selects the first three.
\<close>

definition creative ::
  "nat \<Rightarrow> string \<Rightarrow> string \<Rightarrow> string \<Rightarrow> string \<Rightarrow> string \<Rightarrow> string \<Rightarrow> int \<Rightarrow> fl \<Rightarrow> row" where
  "creative i date country ctr cvr ret cpm inst cpi =
     \<lparr>rid = i,
      cells = (\<lambda>c. CFloat NaN)
        (col_date := CStr date, col_country := CStr country,
         ''CTR'' := CStr ctr, ''CVR'' := CStr cvr, col_retention := CStr ret,
         ''CPM'' := CStr cpm, col_install := CInt inst, col_cpi := CFloat cpi)\<rparr>"

definition scenario :: frame where
  "scenario =
     \<lparr>columns =
        [col_date \<mapsto> Object, col_country \<mapsto> Object,
         ''CTR'' \<mapsto> Object, ''CVR'' \<mapsto> Object, col_retention \<mapsto> Object,
         ''CPM'' \<mapsto> Object, col_install \<mapsto> Int64, col_cpi \<mapsto> Float64],
      rows =
        [creative 0 ''2024-01-01'' ''US'' ''5%'' ''2%'' ''30%'' ''$1.00'' 100 (Fin 1),
         creative 1 ''2024-01-02'' ''US'' ''10%'' ''1%'' ''40%'' ''$2.00'' 50 NaN,
         creative 2 ''2024-01-01'' ''US'' ''1%'' ''3%'' ''20%'' ''$0.50'' 10 (Fin 3),
         creative 3 ''2024-01-01'' ''JP'' ''50%'' ''50%'' ''50%'' ''$0.10'' 500 (Fin 1)]\<rparr>"

definition side_bar :: "int \<Rightarrow> fl \<Rightarrow> int \<Rightarrow> ui" where
  "side_bar mi mc ms =
     \<lparr>ui_sel_date = [CStr ''2024-01-01'', CStr ''2024-01-02''],
      ui_sel_country = [CStr ''US''],
      ui_min_install = mi, ui_min_cpi = mc, ui_min_score = ms\<rparr>"

text \<open>A frame in which the first row earns all four points.\<close>

definition best_case :: frame where
  "best_case =
     \<lparr>columns =
        [''CTR'' \<mapsto> Float64, ''CVR'' \<mapsto> Float64, col_retention \<mapsto> Float64,
         ''CPM'' \<mapsto> Float64],
      rows =
        [\<lparr>rid = 0, cells = (\<lambda>c. CFloat (Fin 9))(''CPM'' := CFloat (Fin 1))\<rparr>,
         \<lparr>rid = 1, cells = (\<lambda>c. CFloat (Fin 5))\<rparr>,
         \<lparr>rid = 2, cells = (\<lambda>c. CFloat (Fin 1))(''CPM'' := CFloat (Fin 9))\<rparr>]\<rparr>"

section \<open>Normalization\<close>

lemmas parse_defs =
  to_numeric_def parse_float_def parse_decimal_def parse_special_def digit_of_def
  digits_val_def pow10_def str_strip_def is_space_def to_lower_def


lemma clean_float_cells:
  "clean_numeric_column \<lparr>dtype = d, svalues = map CFloat xs\<rparr> = xs"
  by (induction xs) (auto simp: clean_numeric_column_def)







text \<open>
  C6, as stated: a numeric value that is not finite normalizes to Missing. It does
  not: positive infinity in a float column stays positive infinity, which is not
  NaN.
\<close>

theorem infinity_stays_counterexample:
  "clean_numeric_column \<lparr>dtype = Float64, svalues = [CFloat PInf]\<rparr> = [PInf] \<and> PInf \<noteq> NaN"
  by (simp add: clean_numeric_column_def)

text \<open>
  C6, amended: a value that is already numeric is returned unchanged, finite or
  not. NaN, the missing value, stays NaN, and an infinity stays that infinity.
\<close>

theorem numeric_value_unchanged:
  "clean_numeric_column \<lparr>dtype = Float64, svalues = map CFloat xs\<rparr> = xs
   \<and> clean_numeric_column \<lparr>dtype = Int64, svalues = map CInt ns\<rparr> = map (\<lambda>n. Fin (of_int n)) ns"
  by (simp add: clean_float_cells) (simp add: clean_numeric_column_def)

text \<open>
  C7: normalizing the float column that normalization returned gives that column
  again; \<^verbatim>\<open>"12.5%"\<close> normalizes to 12.5, \<^verbatim>\<open>"$3.40"\<close> to 3.40,
  \<^verbatim>\<open>"1,234"\<close> to 1234 and \<^verbatim>\<open>"abc"\<close> to NaN.
\<close>

theorem normalization_idempotent:
  "clean_numeric_column \<lparr>dtype = Float64, svalues = map CFloat (clean_numeric_column s)\<rparr>
     = clean_numeric_column s
   \<and> clean_numeric_column
       \<lparr>dtype = Object, svalues = [CStr ''12.5%'', CStr ''$3.40'', CStr ''1,234'', CStr ''abc'']\<rparr>
     = [Fin 12.5, Fin 3.40, Fin 1234, NaN]"
  by (simp add: clean_float_cells) (simp add: clean_numeric_column_def parse_defs)

text \<open>
  C10: every occurrence of the three symbols is removed before parsing, wherever it
  stands, so \<^verbatim>\<open>"1,2,3"\<close> normalizes to 123 and \<^verbatim>\<open>"$5$0"\<close> to 50, not to
  NaN.
\<close>

theorem symbols_removed_anywhere:
  "clean_numeric_column \<lparr>dtype = Object, svalues = [CStr ''1,2,3'', CStr ''$5$0'']\<rparr>
     = [Fin 123, Fin 50]"
  by (simp add: clean_numeric_column_def parse_defs)

section \<open>Masks and frames\<close>

lemma select_map: "map fst (filter snd (zip xs (map p xs))) = filter p xs"
  by (induction xs) auto

lemma select_pred: "select df (map p (rows df)) = df\<lparr>rows := filter p (rows df)\<rparr>"
  by (simp add: select_def select_map)

lemma columns_select [simp]: "columns (select df m) = columns df"
  by (simp add: select_def)

lemma masked_subseq: "subseq (map fst (filter snd (zip xs m))) xs"
proof (induction xs arbitrary: m)
  case Nil
  show ?case by simp
next
  case (Cons x xs)
  show ?case
  proof (cases m)
    case Nil
    then show ?thesis by simp
  next
    case (Cons b bs)
    with Cons.IH [of bs] show ?thesis by (cases b) auto
  qed
qed

lemma subseq_rows_select: "subseq (rows (select df m)) (rows df)"
  by (simp add: select_def masked_subseq)

lemma set_rows_select: "set (rows (select df m)) \<subseteq> set (rows df)"
  using subseq_rows_select [of df m] by (auto dest: list_emb_set)

lemma mask_and_map: "mask_and (map p xs) (map q xs) = map (\<lambda>x. p x \<and> q x) xs"
  by (induction xs) (auto simp: mask_and_def)

lemma replicate_True: "replicate (length xs) True = map (\<lambda>_. True) xs"
  by (induction xs) auto

lemma clean_get_col:
  "get_col df c = Some s \<Longrightarrow>
     clean_numeric_column s = map (\<lambda>r. clean_cell (dtype s) (cells r c)) (rows df)"
  by (auto simp: get_col_def clean_numeric_column_def clean_cell_def split: option.splits)

lemma length_clean_get_col:
  "get_col df c = Some s \<Longrightarrow> length (clean_numeric_column s) = length (rows df)"
  by (simp add: clean_get_col)

lemma query_date_country_eq:
  "query_date_country df u =
     map (\<lambda>r. passes_isin df col_date (ui_sel_date u) r \<and>
              passes_isin df col_country (ui_sel_country u) r) (rows df)"
  by (auto simp: query_date_country_def sel_date_def sel_country_def passes_isin_def
      replicate_True mask_and_map get_col_def Let_def isin_def dom_def
      split: option.splits)

lemma query_base_eq:
  "query_base d u =
     map (\<lambda>r. passes_min_install d (ui_min_install u) r \<and>
              passes_max_cpi d (ui_min_cpi u) r) (rows d)"
  by (auto simp: query_base_def min_install_def min_cpi_def passes_min_install_def
      passes_max_cpi_def replicate_True mask_and_map get_col_def Let_def dom_def
      clean_numeric_column_def clean_cell_def
      split: option.splits)

lemma query_eq:
  "query df u =
     map (\<lambda>r. (passes_isin df col_date (ui_sel_date u) r \<and>
               passes_isin df col_country (ui_sel_country u) r) \<and>
              passes_min_install df (ui_min_install u) r) (rows df)"
  by (auto simp: query_def query_date_country_eq min_install_def passes_min_install_def
      mask_and_map get_col_def Let_def dom_def clean_numeric_column_def clean_cell_def
      split: option.splits)

lemma date_country_rows_eq:
  "date_country_rows df u =
     df\<lparr>rows := filter (\<lambda>r. passes_isin df col_date (ui_sel_date u) r \<and>
              passes_isin df col_country (ui_sel_country u) r) (rows df)\<rparr>"
  by (simp add: date_country_rows_def query_date_country_eq select_pred)

lemma df_base_filtered_eq:
  "df_base_filtered df u =
     (let d = df_date_country_filtered df u in
      d\<lparr>rows := filter (\<lambda>r. passes_min_install d (ui_min_install u) r \<and>
              passes_max_cpi d (ui_min_cpi u) r) (rows d)\<rparr>)"
  by (simp add: df_base_filtered_def query_base_eq select_pred Let_def)

lemma df_sel_eq:
  "df_sel df u =
     df\<lparr>rows := filter (\<lambda>r. (passes_isin df col_date (ui_sel_date u) r \<and>
               passes_isin df col_country (ui_sel_country u) r) \<and>
              passes_min_install df (ui_min_install u) r) (rows df)\<rparr>"
  by (simp add: df_sel_def query_eq select_pred)

lemma rows_df_final: "set (rows (df_final df u)) \<subseteq> set (rows (df_base_filtered df u))"
  using set_rows_select
  by (auto simp: df_final_def Let_def empty_frame_def split: option.splits)

section \<open>Filters\<close>

lemma passes_isin_columns:
  "columns df' = columns df \<Longrightarrow> passes_isin df' c sel = passes_isin df c sel"
  by (simp add: passes_isin_def fun_eq_iff)

lemma filter_isin_eq:
  "filter_isin df c sel = df\<lparr>rows := filter (passes_isin df c sel) (rows df)\<rparr>"
proof (cases "columns df c")
  case None
  then have "filter (passes_isin df c sel) (rows df) = rows df"
    by (simp add: passes_isin_def)
  with None show ?thesis by (simp add: filter_isin_def get_col_def)
next
  case (Some d)
  then have "isin \<lparr>dtype = d, svalues = map (\<lambda>r. cells r c) (rows df)\<rparr> sel
      = map (passes_isin df c sel) (rows df)"
    by (simp add: isin_def passes_isin_def)
  with Some show ?thesis by (simp add: filter_isin_def get_col_def select_pred)
qed

lemma filter_isin_twice:
  "filter_isin (filter_isin df c1 s1) c2 s2
     = df\<lparr>rows := filter (\<lambda>r. passes_isin df c1 s1 r \<and> passes_isin df c2 s2 r) (rows df)\<rparr>"
proof -
  let ?d = "df\<lparr>rows := filter (passes_isin df c1 s1) (rows df)\<rparr>"
  have "passes_isin ?d c2 s2 = passes_isin df c2 s2"
    by (rule passes_isin_columns) simp
  then show ?thesis
    by (simp add: filter_isin_eq [of df] filter_isin_eq [of ?d] conj_commute)
qed

lemma filter_min_install_eq:
  "filter_min_install df mi = df\<lparr>rows := filter (passes_min_install df mi) (rows df)\<rparr>"
proof (cases "columns df col_install")
  case None
  then have "filter (passes_min_install df mi) (rows df) = rows df"
    by (simp add: passes_min_install_def)
  with None show ?thesis by (simp add: filter_min_install_def get_col_def)
next
  case (Some d)
  then have "map (\<lambda>x. fl_ge x (Fin (of_int mi)))
        (clean_numeric_column \<lparr>dtype = d, svalues = map (\<lambda>r. cells r col_install) (rows df)\<rparr>)
      = map (passes_min_install df mi) (rows df)"
    by (simp add: passes_min_install_def clean_numeric_column_def clean_cell_def)
  with Some show ?thesis by (simp add: filter_min_install_def get_col_def select_pred)
qed

text \<open>
  C9: the date filter followed by the country filter gives the same frame as the
  country filter followed by the date filter, for any two columns and selections;
  the Stage-1 snapshot of \<^verbatim>\<open>app_advanced.py\<close> is that frame, and the result
  of \<^verbatim>\<open>app.py\<close> is that frame filtered by the minimum install count. The rows
  of every result are a subsequence of the rows of the frame it was taken from.
\<close>

theorem date_country_filters_commute:
  "filter_isin (filter_isin df c1 s1) c2 s2 = filter_isin (filter_isin df c2 s2) c1 s1
   \<and> subseq (rows (filter_isin df c1 s1)) (rows df)
   \<and> date_country_rows df u
       = filter_isin (filter_isin df col_date (ui_sel_date u)) col_country (ui_sel_country u)
   \<and> date_country_rows df u
       = filter_isin (filter_isin df col_country (ui_sel_country u)) col_date (ui_sel_date u)
   \<and> subseq (rows (date_country_rows df u)) (rows df)
   \<and> df_sel df u
       = filter_min_install
           (filter_isin (filter_isin df col_date (ui_sel_date u)) col_country (ui_sel_country u))
           (ui_min_install u)
   \<and> df_sel df u
       = filter_min_install
           (filter_isin (filter_isin df col_country (ui_sel_country u)) col_date (ui_sel_date u))
           (ui_min_install u)
   \<and> subseq (rows (df_sel df u)) (rows df)"
proof -
  let ?P = "\<lambda>r. passes_isin df col_date (ui_sel_date u) r \<and>
                 passes_isin df col_country (ui_sel_country u) r"
  let ?d = "df\<lparr>rows := filter ?P (rows df)\<rparr>"
  have swap: "filter_isin (filter_isin df a sa) b sb = filter_isin (filter_isin df b sb) a sa"
    for a sa b sb
    by (simp add: filter_isin_twice conj_commute)
  have dc: "date_country_rows df u
      = filter_isin (filter_isin df col_date (ui_sel_date u)) col_country (ui_sel_country u)"
    by (simp add: date_country_rows_eq filter_isin_twice)
  have "passes_min_install ?d (ui_min_install u) = passes_min_install df (ui_min_install u)"
    by (simp add: passes_min_install_def fun_eq_iff)
  then have sel: "df_sel df u
      = filter_min_install
          (filter_isin (filter_isin df col_date (ui_sel_date u)) col_country (ui_sel_country u))
          (ui_min_install u)"
    by (simp add: df_sel_eq filter_isin_twice filter_min_install_eq [of ?d])
  have s1: "subseq (rows (filter_isin df c1 s1)) (rows df)"
    by (simp add: filter_isin_eq)
  have s2: "subseq (rows (date_country_rows df u)) (rows df)"
    by (simp add: date_country_rows_def subseq_rows_select)
  have s3: "subseq (rows (df_sel df u)) (rows df)"
    by (simp add: df_sel_def subseq_rows_select)
  from swap [of c1 s1 c2 s2] dc sel s1 s2 s3
    swap [of col_date "ui_sel_date u" col_country "ui_sel_country u"]
  show ?thesis by simp
qed

lemmas col_defs = col_retention_def col_date_def col_country_def col_score_def col_install_def col_cpi_def

lemmas run_defs =
  df_date_country_filtered_def date_country_rows_def query_date_country_def sel_date_def
  sel_country_def df_base_filtered_def query_base_def min_install_def min_cpi_def
  df_final_def empty_frame_def df_sel_def query_def
  get_col_def isin_def mask_and_def select_def set_column_def
  calculate_score_def metrics_def column_median_def clean_numeric_column_def dropna_def
  median_def fl_gt_def fl_ge_def
  scenario_def side_bar_def creative_def best_case_def col_defs parse_defs


theorem date_country_filters_commute_witness:
  "map rid (rows (filter_isin (filter_isin scenario col_country [CStr ''US'']) col_date
       [CStr ''2024-01-01''])) = [0, 2]
   \<and> map rid (rows (filter_isin (filter_isin scenario col_date [CStr ''2024-01-01'']) col_country
       [CStr ''US''])) = [0, 2]
   \<and> map rid (rows (date_country_rows scenario (side_bar 0 PInf 0))) = [0, 1, 2]"
  using date_country_filters_commute
    [of scenario col_date "[CStr ''2024-01-01'']" col_country "[CStr ''US'']" "side_bar 0 PInf 0"]
  by (simp add: filter_isin_def run_defs)

section \<open>Scores\<close>

lemma length_score_loop:
  "length scores = length (rows df) \<Longrightarrow>
     length (score_loop df med ms scores) = length (rows df)"
proof (induction ms arbitrary: scores)
  case Nil
  then show ?case by simp
next
  case (Cons rule ms)
  obtain key col d where rule: "rule = (key, col, d)" by (cases rule)
  show ?case
    unfolding rule score_loop.simps
    by (rule Cons.IH)
      (auto simp: Cons.prems length_clean_get_col Let_def split: option.splits)
qed

lemma length_calculate_score: "length (fst (calculate_score df)) = length (rows df)"
  by (simp add: calculate_score_def Let_def length_score_loop)

lemma add_point_bound:
  fixes scores :: "int list"
  assumes "\<forall>x\<in>set scores. 0 \<le> x \<and> x \<le> k"
  shows "\<forall>x\<in>set (map2 (+) scores (map (\<lambda>v. if p v then 1 else 0) cleaned)).
           0 \<le> x \<and> x \<le> k + 1"
proof
  fix x
  assume "x \<in> set (map2 (+) scores (map (\<lambda>v. if p v then 1 else 0) cleaned))"
  then obtain a b where ab: "(a, b) \<in> set (zip scores (map (\<lambda>v. if p v then 1 else 0) cleaned))"
    and x: "x = a + b"
    by auto
  from ab have "a \<in> set scores" by (rule set_zip_leftD)
  moreover from ab have "b \<in> set (map (\<lambda>v. if p v then 1 else (0::int)) cleaned)"
    by (rule set_zip_rightD)
  then have "0 \<le> b \<and> b \<le> 1" by auto
  ultimately show "0 \<le> x \<and> x \<le> k + 1" using assms x by fastforce
qed

lemma score_loop_bound:
  assumes "\<forall>x\<in>set scores. 0 \<le> x \<and> x \<le> k"
    and "\<forall>rule\<in>set ms. \<forall>m. med (fst rule) = Some (Some m) \<longrightarrow> rule_available df rule"
  shows "\<forall>x\<in>set (score_loop df med ms scores).
           0 \<le> x \<and> x \<le> k + int (length (filter (rule_available df) ms))"
  using assms
proof (induction ms arbitrary: scores k)
  case Nil
  then show ?case by simp
next
  case (Cons rule ms)
  obtain key col d where rule: "rule = (key, col, d)" by (cases rule)
  let ?step = "(case get_col df col of
          None \<Rightarrow> scores
        | Some s \<Rightarrow>
            (case med key of
               Some (Some m) \<Rightarrow>
                 let cleaned = clean_numeric_column s in
                 if d = Higher
                 then map2 (+) scores (map (\<lambda>x. if fl_gt x m then 1 else 0) cleaned)
                 else map2 (+) scores (map (\<lambda>x. if fl_lt x m then 1 else 0) cleaned)
             | _ \<Rightarrow> scores))"
  let ?b = "if rule_available df rule then 1 else (0::int)"
  have av: "\<And>m. med key = Some (Some m) \<Longrightarrow> rule_available df rule"
    using Cons.prems(2) rule by auto
  have weak: "\<forall>x\<in>set scores. 0 \<le> x \<and> x \<le> k + ?b"
    using Cons.prems(1) by auto
  have step: "\<forall>x\<in>set ?step. 0 \<le> x \<and> x \<le> k + ?b"
  proof (cases "get_col df col")
    case None
    with weak show ?thesis by simp
  next
    case (Some s)
    show ?thesis
    proof (cases "\<exists>m. med key = Some (Some m)")
      case True
      then obtain m where m: "med key = Some (Some m)" by blast
      then have b: "?b = 1" by (simp add: av)
      let ?hi = "map2 (+) scores (map (\<lambda>x. if fl_gt x m then 1 else 0) (clean_numeric_column s))"
      let ?lo = "map2 (+) scores (map (\<lambda>x. if fl_lt x m then 1 else 0) (clean_numeric_column s))"
      have hi: "\<forall>x\<in>set ?hi. 0 \<le> x \<and> x \<le> k + 1"
        by (rule add_point_bound [OF Cons.prems(1)])
      have lo: "\<forall>x\<in>set ?lo. 0 \<le> x \<and> x \<le> k + 1"
        by (rule add_point_bound [OF Cons.prems(1)])
      have "?step = (if d = Higher then ?hi else ?lo)"
        using Some m by (simp add: Let_def)
      then have "?step = ?hi \<or> ?step = ?lo"
        by (cases "d = Higher") simp_all
      then show ?thesis
      proof
        assume "?step = ?hi"
        with hi show ?thesis by (simp only: b)
      next
        assume "?step = ?lo"
        with lo show ?thesis by (simp only: b)
      qed
    next
      case False
      then have "?step = scores"
        using Some by (auto split: option.splits)
      with weak show ?thesis by simp
    qed
  qed
  have rest: "\<forall>rule\<in>set ms. \<forall>m. med (fst rule) = Some (Some m) \<longrightarrow> rule_available df rule"
    using Cons.prems(2) by simp
  have ih: "\<forall>x\<in>set (score_loop df med ms ?step).
           0 \<le> x \<and> x \<le> (k + ?b) + int (length (filter (rule_available df) ms))"
    by (rule Cons.IH [OF step rest])
  have unfold: "score_loop df med (rule # ms) scores = score_loop df med ms ?step"
    by (simp only: rule score_loop.simps)
  have count: "int (length (filter (rule_available df) (rule # ms)))
      = ?b + int (length (filter (rule_available df) ms))"
    by simp
  show ?case
    using ih by (simp only: unfold count add.assoc)
qed

lemma column_median_available:
  "column_median df col = Some m \<Longrightarrow> rule_available df (key, col, d)"
  by (auto simp: column_median_def rule_available_def dropna_def Let_def list_ex_iff
      filter_empty_conv split: option.splits if_splits)

lemma medians_entries:
  "snd (calculate_score df) ''ctr'' = Some (column_median df ''CTR'')"
  "snd (calculate_score df) ''cvr'' = Some (column_median df ''CVR'')"
  "snd (calculate_score df) ''retention'' = Some (column_median df col_retention)"
  "snd (calculate_score df) ''cpm'' = Some (column_median df ''CPM'')"
  "snd (calculate_score df) ''cpi'' = Some (column_median df ''CPI'')"
  by (simp_all add: calculate_score_def Let_def metrics_def)

lemma calculate_score_bound:
  "\<forall>x\<in>set (fst (calculate_score df)). 0 \<le> x \<and> x \<le> int (available_rules df)"
proof -
  let ?med = "snd (calculate_score df)"
  have "\<forall>rule\<in>set metrics. \<forall>m. ?med (fst rule) = Some (Some m) \<longrightarrow> rule_available df rule"
    by (auto simp: metrics_def medians_entries intro: column_median_available)
  moreover have "\<forall>x\<in>set (replicate (length (rows df)) (0::int)). 0 \<le> x \<and> x \<le> 0"
    by simp
  ultimately have "\<forall>x\<in>set (score_loop df ?med metrics (replicate (length (rows df)) 0)).
      0 \<le> x \<and> x \<le> 0 + int (length (filter (rule_available df) metrics))"
    by (rule score_loop_bound [rotated])
  then show ?thesis
    by (simp add: calculate_score_def Let_def available_rules_def)
qed

lemma available_rules_le: "available_rules df \<le> 4"
proof -
  have "length (filter (rule_available df) metrics) \<le> length metrics"
    by (rule length_filter_le)
  then show ?thesis by (simp add: available_rules_def metrics_def)
qed

lemma available_rules_all:
  "list_all (rule_available df) metrics \<Longrightarrow> available_rules df = 4"
  by (simp add: available_rules_def metrics_def)

section \<open>The score column\<close>

lemma set_column_row:
  assumes "r \<in> set (rows (set_column d c dt vals))"
  shows "\<exists>r0 v. r0 \<in> set (rows d) \<and> v \<in> set vals \<and> r = r0\<lparr>cells := (cells r0)(c := v)\<rparr>"
proof -
  from assms obtain r0 v where in_zip: "(r0, v) \<in> set (zip (rows d) vals)"
    and r: "r = r0\<lparr>cells := (cells r0)(c := v)\<rparr>"
    by (auto simp: set_column_def)
  from in_zip have "r0 \<in> set (rows d)" by (rule set_zip_leftD)
  moreover from in_zip have "v \<in> set vals" by (rule set_zip_rightD)
  ultimately show ?thesis using r by blast
qed

lemma rid_set_column:
  assumes "length vals = length (rows d)"
  shows "map rid (rows (set_column d c dt vals)) = map rid (rows d)"
proof -
  have "map rid (rows (set_column d c dt vals)) = map (rid \<circ> fst) (zip (rows d) vals)"
    by (simp add: set_column_def comp_def split_def)
  also have "\<dots> = map rid (map fst (zip (rows d) vals))" by simp
  also have "\<dots> = map rid (rows d)" using assms by simp
  finally show ?thesis .
qed

lemma rid_df_date_country_filtered:
  "map rid (rows (df_date_country_filtered df u)) = map rid (rows (date_country_rows df u))"
  by (simp add: df_date_country_filtered_def Let_def rid_set_column length_calculate_score)

lemma score_cell:
  assumes "r \<in> set (rows (df_date_country_filtered df u))"
  shows "\<exists>n\<in>set (fst (calculate_score (date_country_rows df u))). cells r col_score = CInt n"
proof -
  let ?d = "date_country_rows df u"
  from assms have "rows (df_date_country_filtered df u) \<noteq> []" by auto
  then have "rows ?d \<noteq> []"
    by (auto simp: df_date_country_filtered_def Let_def split: if_splits)
  then have "df_date_country_filtered df u
      = set_column ?d col_score Int64 (map CInt (fst (calculate_score ?d)))"
    by (simp add: df_date_country_filtered_def Let_def)
  with assms obtain r0 v where "v \<in> set (map CInt (fst (calculate_score ?d)))"
    and "r = r0\<lparr>cells := (cells r0)(col_score := v)\<rparr>"
    using set_column_row by metis
  then show ?thesis by auto
qed

lemma stage1_depends_on_selection:
  assumes "ui_sel_date u = ui_sel_date u'" and "ui_sel_country u = ui_sel_country u'"
  shows "date_country_rows df u = date_country_rows df u'"
  using assms by (simp add: date_country_rows_eq)

lemma rows_df_base_filtered:
  "set (rows (df_base_filtered df u)) \<subseteq> set (rows (df_date_country_filtered df u))"
  by (simp add: df_base_filtered_def Let_def set_rows_select)

lemma distinct_stage1:
  assumes "distinct (map rid (rows df))"
  shows "distinct (map rid (rows (df_date_country_filtered df u)))"
  using assms
  by (simp add: rid_df_date_country_filtered date_country_rows_eq distinct_map_filter)

text \<open>
  C2: every score that \<^verbatim>\<open>calculate_score\<close> returns, and every cell of the
  score column of the Stage-1 snapshot, is an integer from 0 up to the number of
  rules of \<^verbatim>\<open>metrics\<close> whose column is in the frame and has a value that is
  not NaN. That number is at most 4; it is 4 when all four rules are available,
  and some frame has a row with score 4.
\<close>

theorem score_bounded:
  "length (fst (calculate_score df_filtered)) = length (rows df_filtered)
   \<and> (\<forall>x\<in>set (fst (calculate_score df_filtered)).
         0 \<le> x \<and> x \<le> int (available_rules df_filtered))
   \<and> (\<forall>r\<in>set (rows (df_date_country_filtered df u)).
         \<exists>n. cells r col_score = CInt n \<and> 0 \<le> n
           \<and> n \<le> int (available_rules (date_country_rows df u)))
   \<and> available_rules df_filtered \<le> 4
   \<and> (list_all (rule_available df_filtered) metrics \<longrightarrow> available_rules df_filtered = 4)
   \<and> (\<exists>d. list_all (rule_available d) metrics \<and> 4 \<in> set (fst (calculate_score d)))"
proof -
  have col: "\<forall>r\<in>set (rows (df_date_country_filtered df u)).
      \<exists>n. cells r col_score = CInt n \<and> 0 \<le> n
        \<and> n \<le> int (available_rules (date_country_rows df u))"
    using score_cell [of _ df u] calculate_score_bound [of "date_country_rows df u"]
    by blast
  have "list_all (rule_available best_case) metrics"
    by (simp add: rule_available_def run_defs)
  moreover have "4 \<in> set (fst (calculate_score best_case))"
    by (simp add: run_defs)
  ultimately have ex: "\<exists>d. list_all (rule_available d) metrics \<and> 4 \<in> set (fst (calculate_score d))"
    by blast
  from col ex show ?thesis
    using length_calculate_score [of df_filtered] calculate_score_bound [of df_filtered]
      available_rules_le [of df_filtered] available_rules_all [of df_filtered]
    by blast
qed

theorem score_bounded_witness:
  "fst (calculate_score (date_country_rows scenario (side_bar 0 PInf 0))) = [0, 2, 2]
   \<and> available_rules (date_country_rows scenario (side_bar 0 PInf 0)) = 4
   \<and> list_all (\<lambda>x. 0 \<le> x \<and> x \<le> 4)
        (fst (calculate_score (date_country_rows scenario (side_bar 0 PInf 0))))"
  using score_bounded [of "date_country_rows scenario (side_bar 0 PInf 0)" scenario "side_bar 0 PInf 0"]
  by (simp add: available_rules_def rule_available_def run_defs)

text \<open>
  C1: two settings of the side bar with the same dates and countries give the same
  Stage-1 snapshot, score column included, and the same medians, whatever their
  install and CPI thresholds and their score slider are. Every row of the Stage-2
  and of the final frame is a row of that snapshot, with the score it has there;
  when index labels are distinct, rows with the same label under two such settings
  carry the same score.
\<close>

theorem scores_fixed_by_stage1:
  "ui_sel_date u = ui_sel_date u' \<Longrightarrow> ui_sel_country u = ui_sel_country u' \<Longrightarrow>
     df_date_country_filtered df u = df_date_country_filtered df u'
     \<and> medians_of df u = medians_of df u'
     \<and> set (rows (df_base_filtered df u)) \<subseteq> set (rows (df_date_country_filtered df u'))
     \<and> set (rows (df_final df u)) \<subseteq> set (rows (df_date_country_filtered df u'))
     \<and> (distinct (map rid (rows df)) \<longrightarrow>
          (\<forall>r\<in>set (rows (df_base_filtered df u)). \<forall>r'\<in>set (rows (df_base_filtered df u')).
             rid r = rid r' \<longrightarrow> cells r col_score = cells r' col_score))"
proof -
  assume sel: "ui_sel_date u = ui_sel_date u'" "ui_sel_country u = ui_sel_country u'"
  then have d: "date_country_rows df u = date_country_rows df u'"
    by (rule stage1_depends_on_selection)
  then have s1: "df_date_country_filtered df u = df_date_country_filtered df u'"
    by (simp add: df_date_country_filtered_def)
  from d have med: "medians_of df u = medians_of df u'"
    by (simp add: medians_of_def)
  have base: "set (rows (df_base_filtered df u)) \<subseteq> set (rows (df_date_country_filtered df u'))"
    using rows_df_base_filtered [of df u] s1 by simp
  have fin: "set (rows (df_final df u)) \<subseteq> set (rows (df_date_country_filtered df u'))"
    using rows_df_final [of df u] base by blast
  have same: "cells r col_score = cells r' col_score"
    if dist: "distinct (map rid (rows df))"
      and r: "r \<in> set (rows (df_base_filtered df u))"
      and r': "r' \<in> set (rows (df_base_filtered df u'))"
      and rid: "rid r = rid r'"
    for r r'
  proof -
    let ?s = "rows (df_date_country_filtered df u')"
    from r base have "r \<in> set ?s" by blast
    moreover from r' rows_df_base_filtered [of df u'] have "r' \<in> set ?s" by blast
    moreover from dist have "inj_on rid (set ?s)"
      using distinct_stage1 [of df u'] by (simp add: distinct_map)
    ultimately have "r = r'" using rid by (auto dest: inj_onD)
    then show ?thesis by simp
  qed
  from s1 med base fin same show ?thesis by blast
qed

theorem scores_fixed_by_stage1_witness:
  "df_date_country_filtered scenario (side_bar 0 PInf 0)
     = df_date_country_filtered scenario (side_bar 20 (Fin 2) 1)
   \<and> map (\<lambda>r. (rid r, cells r col_score)) (rows (df_base_filtered scenario (side_bar 0 PInf 0)))
       = [(0, CInt 0), (2, CInt 2)]
   \<and> map (\<lambda>r. (rid r, cells r col_score)) (rows (df_base_filtered scenario (side_bar 20 (Fin 2) 1)))
       = [(0, CInt 0)]"
  using scores_fixed_by_stage1 [of "side_bar 0 PInf 0" "side_bar 20 (Fin 2) 1" scenario]
  by (simp add: run_defs)

text \<open>
  C3: the rows of the Stage-2 frame are rows of the Stage-1 snapshot, the rows of
  the final frame are rows of the Stage-2 frame, for every setting of the side
  bar; the order is kept, and the snapshot itself takes its rows from the raw
  frame.
\<close>

theorem filters_only_remove_rows:
  "set (rows (df_base_filtered df u)) \<subseteq> set (rows (df_date_country_filtered df u))
   \<and> set (rows (df_final df u)) \<subseteq> set (rows (df_base_filtered df u))
   \<and> subseq (rows (df_base_filtered df u)) (rows (df_date_country_filtered df u))
   \<and> subseq (map rid (rows (df_date_country_filtered df u))) (map rid (rows df))"
proof -
  have "subseq (rows (df_base_filtered df u)) (rows (df_date_country_filtered df u))"
    by (simp add: df_base_filtered_def Let_def subseq_rows_select)
  moreover have "subseq (map rid (rows (df_date_country_filtered df u))) (map rid (rows df))"
    by (simp add: rid_df_date_country_filtered date_country_rows_def subseq_rows_select subseq_map)
  ultimately show ?thesis
    using rows_df_base_filtered [of df u] rows_df_final [of df u] by blast
qed

theorem filters_only_remove_rows_witness:
  "map rid (rows (df_date_country_filtered scenario (side_bar 5 (Fin 5) 2))) = [0, 1, 2]
   \<and> map rid (rows (df_base_filtered scenario (side_bar 5 (Fin 5) 2))) = [0, 2]
   \<and> map rid (rows (df_final scenario (side_bar 5 (Fin 5) 2))) = [2]"
  using filters_only_remove_rows [of scenario "side_bar 5 (Fin 5) 2"]
  by (simp add: run_defs)

text \<open>
  C8: a row whose install count normalizes to NaN is not in the Stage-2 frame, nor
  is a row whose CPI normalizes to NaN, whatever the thresholds are; in
  \<^verbatim>\<open>app.py\<close> a row whose install count normalizes to NaN is not in the
  filtered frame. The normalized value of a row is the entry of
  \<^verbatim>\<open>clean_numeric_column\<close> at that row.
\<close>

theorem missing_fails_threshold:
  "(get_col d c = Some s \<longrightarrow>
      clean_numeric_column s = map (\<lambda>r. clean_cell (dtype s) (cells r c)) (rows d))
   \<and> (columns (df_date_country_filtered df u) col_install = Some dt
        \<and> clean_cell dt (cells r col_install) = NaN
      \<longrightarrow> r \<notin> set (rows (df_base_filtered df u)))
   \<and> (columns (df_date_country_filtered df u) col_cpi = Some dt
        \<and> clean_cell dt (cells r col_cpi) = NaN
      \<longrightarrow> r \<notin> set (rows (df_base_filtered df u)))
   \<and> (columns df col_install = Some dt \<and> clean_cell dt (cells r col_install) = NaN
      \<longrightarrow> r \<notin> set (rows (df_sel df u)))"
  by (auto simp: clean_get_col df_base_filtered_eq df_sel_eq Let_def
      passes_min_install_def passes_max_cpi_def fl_ge_def)

theorem missing_fails_threshold_witness:
  "clean_cell Float64 (cells (creative 1 ''2024-01-02'' ''US'' ''10%'' ''1%'' ''40%'' ''$2.00'' 50 NaN) col_cpi) = NaN
   \<and> map rid (rows (df_date_country_filtered scenario (side_bar 0 PInf 0))) = [0, 1, 2]
   \<and> map rid (rows (df_base_filtered scenario (side_bar 0 PInf 0))) = [0, 2]"
  using missing_fails_threshold [of scenario col_cpi
      "\<lparr>dtype = Float64, svalues = map (\<lambda>r. cells r col_cpi) (rows scenario)\<rparr>"
      scenario "side_bar 0 PInf 0" Float64
      "creative 1 ''2024-01-02'' ''US'' ''10%'' ''1%'' ''40%'' ''$2.00'' 50 NaN"]
  by (simp add: clean_cell_def run_defs)

section \<open>The median\<close>

lemma fl_le_total: "x \<noteq> NaN \<Longrightarrow> y \<noteq> NaN \<Longrightarrow> fl_le x y \<or> fl_le y x"
  by (cases x; cases y) auto

lemma fl_le_trans: "fl_le x y \<Longrightarrow> fl_le y z \<Longrightarrow> fl_le x z"
  by (cases x; cases y; cases z) auto

lemma fl_le_antisym: "fl_le x y \<Longrightarrow> fl_le y x \<Longrightarrow> x = y"
  by (cases x; cases y) auto

lemma fl_le_refl: "x \<noteq> NaN \<Longrightarrow> fl_le x x"
  by (cases x) auto

lemma mset_fl_insert: "mset (fl_insert x xs) = add_mset x (mset xs)"
  by (induction xs) auto

lemma mset_fl_sort: "mset (fl_sort xs) = mset xs"
  by (induction xs) (auto simp: mset_fl_insert)

lemma set_fl_insert: "set (fl_insert x xs) = insert x (set xs)"
  by (induction xs) auto

lemma set_fl_sort: "set (fl_sort xs) = set xs"
  by (induction xs) (auto simp: set_fl_insert)

lemma sorted_fl_insert:
  "x \<noteq> NaN \<Longrightarrow> NaN \<notin> set xs \<Longrightarrow> sorted_wrt fl_le xs \<Longrightarrow> sorted_wrt fl_le (fl_insert x xs)"
proof (induction xs)
  case Nil
  then show ?case by simp
next
  case (Cons y ys)
  show ?case
  proof (cases "fl_le x y")
    case True
    then have "\<forall>z\<in>set ys. fl_le x z"
      using Cons.prems(3) by (auto intro: fl_le_trans)
    with True Cons.prems(3) show ?thesis by simp
  next
    case False
    with Cons.prems have "fl_le y x" using fl_le_total [of x y] by auto
    with False Cons show ?thesis by (auto simp: set_fl_insert)
  qed
qed

lemma sorted_fl_sort: "NaN \<notin> set xs \<Longrightarrow> sorted_wrt fl_le (fl_sort xs)"
  by (induction xs) (auto simp: sorted_fl_insert set_fl_sort)

lemma ascending_unique:
  "sorted_wrt fl_le xs \<Longrightarrow> sorted_wrt fl_le ys \<Longrightarrow> mset xs = mset ys \<Longrightarrow> xs = ys"
proof (induction xs arbitrary: ys)
  case Nil
  then show ?case by simp
next
  case (Cons x xs)
  from Cons.prems(3) obtain y ys' where ys: "ys = y # ys'" by (cases ys) auto
  have "x \<in> set (y # ys')"
    using Cons.prems(3) ys by (metis list.set_intros(1) mset_eq_setD)
  moreover have "y \<in> set (x # xs)"
    using Cons.prems(3) ys by (metis list.set_intros(1) mset_eq_setD)
  ultimately have "x = y"
    using Cons.prems(1,2) ys by (auto intro: fl_le_antisym)
  moreover from this Cons.prems(3) ys have "mset xs = mset ys'" by simp
  ultimately show ?case
    using Cons.IH [of ys'] Cons.prems(1,2) ys by simp
qed

lemma median_middle: "median xs = middle (fl_sort xs)"
  by (simp add: median_def middle_def Let_def)

lemma median_of_ascending:
  assumes "NaN \<notin> set xs" and "mset ys = mset xs" and "sorted_wrt fl_le ys"
  shows "median xs = middle ys"
proof -
  have "sorted_wrt fl_le (fl_sort xs)" using assms(1) by (rule sorted_fl_sort)
  moreover have "mset (fl_sort xs) = mset ys" using assms(2) by (simp add: mset_fl_sort)
  ultimately have "fl_sort xs = ys" using assms(3) by (auto intro: ascending_unique)
  then show ?thesis by (simp add: median_middle)
qed

lemma dropna_no_nan: "NaN \<notin> set (dropna xs)"
  by (simp add: dropna_def)

lemma column_median_cases:
  "column_median df c =
     (case get_col df c of
        None \<Rightarrow> None
      | Some s \<Rightarrow>
          if dropna (clean_numeric_column s) = [] then None
          else Some (median (dropna (clean_numeric_column s))))"
  by (simp add: column_median_def Let_def split: option.splits)

text \<open>
  C4: each entry of \<^verbatim>\<open>medians\<close> is the median of its column: \<^verbatim>\<open>None\<close> when
  the column is absent or every normalized value is NaN, and otherwise the middle
  of any ascending arrangement of the values that are not NaN, the mean of the two
  middle values when their number is even. The median of 1, 2, 3, 4 is 2.5 and
  the median of 1, 2, 3 is 2.
\<close>

theorem benchmark_is_median:
  "snd (calculate_score df) ''ctr'' = Some (column_median df ''CTR'')
   \<and> snd (calculate_score df) ''cvr'' = Some (column_median df ''CVR'')
   \<and> snd (calculate_score df) ''retention'' = Some (column_median df col_retention)
   \<and> snd (calculate_score df) ''cpm'' = Some (column_median df ''CPM'')
   \<and> snd (calculate_score df) ''cpi'' = Some (column_median df ''CPI'')
   \<and> (get_col df c = None \<longrightarrow> column_median df c = None)
   \<and> (get_col df c = Some s \<and> list_all (\<lambda>x. x = NaN) (clean_numeric_column s)
        \<longrightarrow> column_median df c = None)
   \<and> (get_col df c = Some s \<and> mset ys = mset (dropna (clean_numeric_column s))
        \<and> ys \<noteq> [] \<and> sorted_wrt fl_le ys
        \<longrightarrow> column_median df c = Some (middle ys))
   \<and> middle [Fin 1, Fin 2, Fin 3, Fin 4] = Fin 2.5
   \<and> middle [Fin 1, Fin 2, Fin 3] = Fin 2
   \<and> median [Fin 1, Fin 2, Fin 3, Fin 4] = Fin 2.5
   \<and> median [Fin 1, Fin 2, Fin 3] = Fin 2"
proof -
  have absent: "get_col df c = None \<longrightarrow> column_median df c = None"
    by (simp add: column_median_cases)
  have missing: "get_col df c = Some s \<and> list_all (\<lambda>x. x = NaN) (clean_numeric_column s)
      \<longrightarrow> column_median df c = None"
    by (auto simp: column_median_cases dropna_def list_all_iff filter_empty_conv)
  have present: "get_col df c = Some s \<and> mset ys = mset (dropna (clean_numeric_column s))
        \<and> ys \<noteq> [] \<and> sorted_wrt fl_le ys
      \<longrightarrow> column_median df c = Some (middle ys)"
  proof (intro impI, elim conjE)
    assume s: "get_col df c = Some s"
      and ys: "mset ys = mset (dropna (clean_numeric_column s))" "ys \<noteq> []" "sorted_wrt fl_le ys"
    from ys(1,2) have "dropna (clean_numeric_column s) \<noteq> []" by auto
    moreover have "median (dropna (clean_numeric_column s)) = middle ys"
      using dropna_no_nan ys(1,3) by (rule median_of_ascending)
    ultimately show "column_median df c = Some (middle ys)"
      using s by (simp add: column_median_cases)
  qed
  have ex: "middle [Fin 1, Fin 2, Fin 3, Fin 4] = Fin 2.5" "middle [Fin 1, Fin 2, Fin 3] = Fin 2"
    "median [Fin 1, Fin 2, Fin 3, Fin 4] = Fin 2.5" "median [Fin 1, Fin 2, Fin 3] = Fin 2"
    by (simp_all add: middle_def median_def)
  from absent missing present ex medians_entries [of df] show ?thesis by blast
qed

theorem benchmark_is_median_witness:
  "column_median scenario ''CTR'' = Some (Fin 7.5)
   \<and> column_median scenario col_cpi = Some (Fin 1)
   \<and> column_median scenario ''ROI1'' = None
   \<and> column_median (date_country_rows scenario (side_bar 0 PInf 0)) ''CTR'' = Some (Fin 5)"
  using benchmark_is_median [of scenario "''CTR''"
      "\<lparr>dtype = Object, svalues = map (\<lambda>r. cells r ''CTR'') (rows scenario)\<rparr>"
      "[Fin 1, Fin 5, Fin 10, Fin 50]"]
  by (simp add: middle_def run_defs)

end
